theory Spec2Isabelle
  imports Complex_Main "HOL-Library.AList" "HOL-Library.Char_ord" "HOL-Library.List_Lexorder"
begin

section \<open>Python values, errors and the outside world\<close>

text \<open>
  The adjusted-data algorithm of \<^verbatim>\<open>geomagio/algorithm/AdjustedAlgorithm.py\<close>.
  Numbers (\<^verbatim>\<open>numpy.float64\<close> and Python floats) are idealised as real numbers: no
  rounding, no NaN, no infinities. Exceptions are values of type \<open>error\<close>; a function
  that may raise returns \<open>error + 'a\<close>, and a method that mutates the instance before it
  raises returns the instance as it is left behind together with the outcome.
\<close>

datatype error =
    IOError string
  | ValueError
  | KeyError string
  | IndexError
  | AttributeError
  | TypeError
  | Unmodelled
    \<comment> \<open>not a Python exception: the run leaves the fragment of Python and numpy that this
        model follows (a NaN result, a numeric string, a nested JSON value)\<close>

type_synonym 'a outcome = "error + 'a"

subsection \<open>The state file\<close>

text \<open>
  The text of a state file is kept after lexing: a list of JSON tokens. The alphabet is
  the one of the state-file format (one flat object of numbers) together with string and
  \<^verbatim>\<open>null\<close> literals; the empty file (and a file of white space) is the empty token list.
\<close>

datatype token = LBrace | RBrace | Colon | Comma | TStr string | TNum real | TNull

datatype file_state =
    Missing   \<comment> \<open>no such file: \<^verbatim>\<open>open(path, "r")\<close> raises, \<^verbatim>\<open>open(path, "w")\<close> creates it\<close>
  | Denied    \<comment> \<open>permission denied for reading and writing\<close>
  | Faulty    \<comment> \<open>the device fails: reading and writing raise an I/O error\<close>
  | Text "token list"

record world =
  files :: "string \<Rightarrow> file_state"
  stderr :: "string list"

definition open_read :: "world \<Rightarrow> string \<Rightarrow> token list outcome" where
  \<comment> \<open>\<^verbatim>\<open>with open(path, "r") as f: f.read()\<close>; the message is \<^verbatim>\<open>str(err)\<close>, for a path
      of printable characters without quotes, backslashes or NUL\<close>
  "open_read w path =
     (case files w path of
        Missing \<Rightarrow> Inl (IOError (''[Errno 2] No such file or directory: '' @ [CHR 0x27] @ path @ [CHR 0x27]))
      | Denied \<Rightarrow> Inl (IOError (''[Errno 13] Permission denied: '' @ [CHR 0x27] @ path @ [CHR 0x27]))
      | Faulty \<Rightarrow> Inl (IOError ''[Errno 5] Input/output error'')
      | Text ts \<Rightarrow> Inr ts)"


subsection \<open>Dictionaries and JSON\<close>

text \<open>
  A Python \<^verbatim>\<open>dict\<close> with string keys is an association list with distinct keys in
  insertion order: \<^const>\<open>AList.update\<close> is \<^verbatim>\<open>d[k] = v\<close>, \<^const>\<open>map_of\<close> is the
  lookup and \<^const>\<open>AList.delete\<close> removes a key. A value is a number or \<^verbatim>\<open>None\<close>
  (JSON \<^verbatim>\<open>null\<close>).
\<close>

type_synonym dict = "(string \<times> real option) list"

datatype json = JNull | JStr string | JNum real | JObj dict

definition dict_of :: "(string \<times> real option) list \<Rightarrow> dict" where
  \<comment> \<open>the dict that \<^verbatim>\<open>json.loads\<close> builds from the members of an object: a repeated key
      keeps its first position and takes the last value\<close>
  "dict_of kvs = fold (\<lambda>(k, v) d. AList.update k v d) kvs []"

fun member_value :: "token \<Rightarrow> real option outcome" where
  "member_value (TNum r) = Inr (Some r)"
| "member_value TNull = Inr None"
| "member_value (TStr s) = Inl Unmodelled"
| "member_value LBrace = Inl Unmodelled"
| "member_value _ = Inl ValueError"

fun parse_members :: "token list \<Rightarrow> (string \<times> real option) list outcome" where
  "parse_members (TStr k # Colon # v # rest) =
     (case member_value v of
        Inl e \<Rightarrow> Inl e
      | Inr x \<Rightarrow>
          (case rest of
             [] \<Rightarrow> Inl ValueError
           | t # ts \<Rightarrow>
               if t = RBrace \<and> ts = [] then Inr [(k, x)]
               else if t = Comma then
                 (case parse_members ts of Inl e \<Rightarrow> Inl e | Inr kvs \<Rightarrow> Inr ((k, x) # kvs))
               else Inl ValueError))"
| "parse_members _ = Inl ValueError"

definition json_loads :: "token list \<Rightarrow> json outcome" where
  \<comment> \<open>\<^verbatim>\<open>json.loads\<close>: a text that is not one JSON value raises \<^verbatim>\<open>JSONDecodeError\<close>, a
      subclass of \<^verbatim>\<open>ValueError\<close>; the empty text is such a text\<close>
  "json_loads ts =
     (case ts of
        [] \<Rightarrow> Inl ValueError
      | t # rest \<Rightarrow>
          (case t of
             TNull \<Rightarrow> if rest = [] then Inr JNull else Inl ValueError
           | TStr s \<Rightarrow> if rest = [] then Inr (JStr s) else Inl ValueError
           | TNum r \<Rightarrow> if rest = [] then Inr (JNum r) else Inl ValueError
           | LBrace \<Rightarrow>
               if rest = [RBrace] then Inr (JObj [])
               else (case parse_members rest of
                       Inl e \<Rightarrow> Inl e
                     | Inr kvs \<Rightarrow> Inr (JObj (dict_of kvs)))
           | _ \<Rightarrow> Inl ValueError))"




subsection \<open>Strings, digits and numpy helpers\<close>

definition digit_char :: "nat \<Rightarrow> char" where
  \<comment> \<open>the character of a decimal digit \<open>d < 10\<close>\<close>
  "digit_char d = ''0123456789'' ! d"

fun str_nat :: "nat \<Rightarrow> string" where
  \<comment> \<open>\<^verbatim>\<open>str(n)\<close> of a non-negative integer\<close>
  "str_nat n = (if n < 10 then [digit_char n] else str_nat (n div 10) @ [digit_char (n mod 10)])"

declare str_nat.simps [simp del]

definition int_of_char :: "char \<Rightarrow> nat outcome" where
  \<comment> \<open>\<^verbatim>\<open>int(c)\<close> of a one-character string: its value for an ASCII digit, else
      \<^verbatim>\<open>ValueError\<close>\<close>
  "int_of_char c =
     (let n = (of_char c :: nat) in if 48 \<le> n \<and> n \<le> 57 then Inr (n - 48) else Inl ValueError)"

definition last_char :: "string \<Rightarrow> char outcome" where
  \<comment> \<open>\<^verbatim>\<open>s[-1]\<close>\<close>
  "last_char s = (if s = [] then Inl IndexError else Inr (last s))"

definition py_max :: "string list \<Rightarrow> string outcome" where
  \<comment> \<open>\<^verbatim>\<open>max(keys)\<close>: the first greatest string in code-point order, \<^verbatim>\<open>ValueError\<close> on
      an empty list\<close>
  "py_max ks =
     (case ks of
        [] \<Rightarrow> Inl ValueError
      | k # rest \<Rightarrow> Inr (fold (\<lambda>x m. if m < x then x else m) rest k))"

definition np_float64 :: "real option \<Rightarrow> real outcome" where
  \<comment> \<open>\<^verbatim>\<open>np.float64(v)\<close>: a number is kept; \<^verbatim>\<open>None\<close> gives NaN, which the reals lack\<close>
  "np_float64 v = (case v of Some r \<Rightarrow> Inr r | None \<Rightarrow> Inl Unmodelled)"

type_synonym matrix = "real list list"

definition eye :: "nat \<Rightarrow> matrix" where
  \<comment> \<open>\<^verbatim>\<open>np.eye(n)\<close>, as the list of its rows\<close>
  "eye n = map (\<lambda>i. map (\<lambda>j. if i = j then 1 else 0) [0..<n]) [0..<n]"

definition set_cell :: "matrix \<Rightarrow> nat \<Rightarrow> nat \<Rightarrow> real \<Rightarrow> matrix" where
  \<comment> \<open>\<^verbatim>\<open>m[i, j] = v\<close> for an index in range\<close>
  "set_cell m i j v = m[i := (m ! i)[j := v]]"


definition cell_key :: "nat \<Rightarrow> nat \<Rightarrow> string" where
  \<comment> \<open>\<^verbatim>\<open>"M" + str(i + 1) + str(j + 1)\<close>\<close>
  "cell_key i j = ''M'' @ str_nat (i + 1) @ str_nat (j + 1)"

definition cells :: "nat \<Rightarrow> (nat \<times> nat) list" where
  \<comment> \<open>the index pairs of \<^verbatim>\<open>for i in range(n): for j in range(n)\<close>, in loop order\<close>
  "cells n = List.product [0..<n] [0..<n]"

section \<open>The algorithm instance\<close>

record algorithm =
  inchannels :: "string list"
  outchannels :: "string list"
  matrix :: matrix
  pier_correction :: "real option"
  statefile :: "string option"
  data_type :: "string option"
  location :: "string option"

definition get_input_channels :: "algorithm \<Rightarrow> string list" where
  \<comment> \<open>Modelled from the spec: the base class \<^verbatim>\<open>Algorithm\<close> is not part of the sources; it
      keeps the channel mapping given to its constructor and returns the input list\<close>
  "get_input_channels self = inchannels self"

definition get_output_channels :: "algorithm \<Rightarrow> string list" where
  \<comment> \<open>Modelled from the spec: see \<^const>\<open>get_input_channels\<close>\<close>
  "get_output_channels self = outchannels self"

subsection \<open>load_state\<close>

fun fill_matrix :: "dict \<Rightarrow> (nat \<times> nat) list \<Rightarrow> matrix \<Rightarrow> unit outcome \<times> matrix" where
  \<comment> \<open>the double loop of \<^verbatim>\<open>load_state\<close>: the matrix is written cell by cell, and a failing
      cell leaves the cells before it written\<close>
  "fill_matrix data [] m = (Inr (), m)"
| "fill_matrix data ((i, j) # ps) m =
     (case map_of data (cell_key i j) of
        None \<Rightarrow> (Inl (KeyError (cell_key i j)), m)
      | Some v \<Rightarrow>
          (case np_float64 v of
             Inl e \<Rightarrow> (Inl e, m)
           | Inr r \<Rightarrow> fill_matrix data ps (set_cell m i j r)))"

definition matrix_size :: "dict \<Rightarrow> nat outcome" where
  \<comment> \<open>\<^verbatim>\<open>int(max(keys)[-1])\<close> over the keys left after \<^verbatim>\<open>"PC"\<close> is popped\<close>
  "matrix_size data =
     (case py_max (map fst data) of
        Inl e \<Rightarrow> Inl e
      | Inr k \<Rightarrow> (case last_char k of Inl e \<Rightarrow> Inl e | Inr c \<Rightarrow> int_of_char c))"

definition load_record :: "algorithm \<Rightarrow> dict \<Rightarrow> unit outcome \<times> algorithm" where
  \<comment> \<open>lines 60 to 70: the part of \<^verbatim>\<open>load_state\<close> that reads a parsed record\<close>
  "load_record self data =
     (case map_of data ''PC'' of
        None \<Rightarrow> (Inl (KeyError ''PC''), self)
      | Some PC \<Rightarrow>
          (case np_float64 PC of
             Inl e \<Rightarrow> (Inl e, self)
           | Inr pc \<Rightarrow>
               (let self1 = self\<lparr>pier_correction := Some pc\<rparr>;
                    data1 = AList.delete ''PC'' data
                in case matrix_size data1 of
                     Inl e \<Rightarrow> (Inl e, self1)
                   | Inr n \<Rightarrow>
                       (case fill_matrix data1 (cells n) (eye n) of
                          (r, m) \<Rightarrow> (r, self1\<lparr>matrix := m\<rparr>)))))"

definition load_state :: "algorithm \<Rightarrow> world \<Rightarrow> unit outcome \<times> algorithm \<times> world" where
  "load_state self0 w =
     (let self = self0\<lparr>matrix := eye (length (get_input_channels self0)),
                       pier_correction := Some 0\<rparr>
      in case statefile self of
           None \<Rightarrow> (Inr (), self, w)
         | Some path \<Rightarrow>
             (case open_read w path of
                Inl (IOError msg) \<Rightarrow>
                  (Inr (), self, w\<lparr>stderr := stderr w @ [''I/O error '' @ msg]\<rparr>)
              | Inl e \<Rightarrow> (Inl e, self, w)
              | Inr text \<Rightarrow>
                  (case json_loads text of
                     Inl e \<Rightarrow> (Inl e, self, w)
                   | Inr JNull \<Rightarrow> (Inr (), self, w)
                   | Inr (JStr s) \<Rightarrow> if s = [] then (Inr (), self, w) else (Inl AttributeError, self, w)
                   | Inr (JNum r) \<Rightarrow> (Inl AttributeError, self, w)
                   | Inr (JObj data) \<Rightarrow>
                       (case load_record self data of (r, self') \<Rightarrow> (r, self', w)))))"

subsection \<open>save_state\<close>



subsection \<open>The constructor\<close>

definition init ::
  "matrix option \<Rightarrow> real option \<Rightarrow> string option \<Rightarrow> string option \<Rightarrow> string option \<Rightarrow>
   string list option \<Rightarrow> string list option \<Rightarrow> world \<Rightarrow> unit outcome \<times> algorithm \<times> world" where
  \<comment> \<open>\<^verbatim>\<open>__init__\<close>; an argument left out is \<^verbatim>\<open>None\<close>, and \<^verbatim>\<open>x or default\<close> takes the
      default for \<^verbatim>\<open>None\<close> and for the empty list. With no matrix given the matrix field is
      overwritten by \<^const>\<open>load_state\<close> before anything reads it.\<close>
  "init matrix0 pier_correction0 statefile0 data_type0 location0 inchannels0 outchannels0 w =
     (let ins = (case inchannels0 of
                   None \<Rightarrow> [''H'', ''E'', ''Z'', ''F'']
                 | Some cs \<Rightarrow> if cs = [] then [''H'', ''E'', ''Z'', ''F''] else cs);
          outs = (case outchannels0 of
                    None \<Rightarrow> [''X'', ''Y'', ''Z'', ''F'']
                  | Some cs \<Rightarrow> if cs = [] then [''X'', ''Y'', ''Z'', ''F''] else cs);
          self = \<lparr>inchannels = ins, outchannels = outs,
                  matrix = (case matrix0 of None \<Rightarrow> [] | Some m \<Rightarrow> m),
                  pier_correction = pier_correction0, statefile = statefile0,
                  data_type = data_type0, location = location0\<rparr>
      in case matrix0 of
           None \<Rightarrow> load_state self w
         | Some m \<Rightarrow> (Inr (), self, w))"

section \<open>Channel batches\<close>

record stats =
  stats_channel :: string
  stats_data_type :: "string option"
  stats_location :: string
  stats_other :: "(string \<times> string) list"
    \<comment> \<open>every other entry of the metadata: network, station, start time, sampling rate\<close>

record trace =
  trace_stats :: stats
  trace_data :: "real list"

type_synonym stream = "trace list"

subsection \<open>Selecting traces by channel code\<close>

text \<open>
  \<^verbatim>\<open>stream.select(channel=c)\<close> of obspy keeps the traces \<open>t\<close> with
  \<^verbatim>\<open>fnmatch.fnmatch(t.stats.channel.upper(), c.upper())\<close>: the code is a shell pattern,
  matched without regard to case. Characters are ASCII.
\<close>

definition upper_char :: "char \<Rightarrow> char" where
  "upper_char c =
     (case map_of (zip ''abcdefghijklmnopqrstuvwxyz'' ''ABCDEFGHIJKLMNOPQRSTUVWXYZ'') c of
        None \<Rightarrow> c
      | Some u \<Rightarrow> u)"

definition upper :: "string \<Rightarrow> string" where
  \<comment> \<open>\<^verbatim>\<open>s.upper()\<close>\<close>
  "upper s = map upper_char s"

definition bracket :: "string \<Rightarrow> (string \<times> nat) option" where
  \<comment> \<open>the text after a \<^verbatim>\<open>[\<close> of a pattern: the content of the character class and its
      length, when a closing \<^verbatim>\<open>]\<close> follows (a leading \<^verbatim>\<open>!\<close> and a \<^verbatim>\<open>]\<close> right after the
      opening belong to the content)\<close>
  "bracket p =
     (let a = (if take 1 p = ''!'' then 1 else 0);
          b = (if take 1 (drop a p) = '']'' then a + 1 else a);
          j = b + length (takeWhile (\<lambda>c. c \<noteq> CHR '']'') (drop b p))
      in if j < length p then Some (take j p, j) else None)"

fun in_class :: "char \<Rightarrow> string \<Rightarrow> bool" where
  \<comment> \<open>membership in a class of single characters and ranges \<^verbatim>\<open>a-b\<close>\<close>
  "in_class c [] = False"
| "in_class c [a] = (c = a)"
| "in_class c [a, b] = (c = a \<or> c = b)"
| "in_class c (a # m # b # rest) =
     (if m = CHR ''-'' then (a \<le> c \<and> c \<le> b) \<or> in_class c rest
      else c = a \<or> in_class c (m # b # rest))"

definition class_matches :: "char \<Rightarrow> string \<Rightarrow> bool" where
  "class_matches c stuff =
     (if take 1 stuff = ''!'' then \<not> in_class c (drop 1 stuff) else in_class c stuff)"

fun fnmatchcase :: "string \<Rightarrow> string \<Rightarrow> bool" where
  \<comment> \<open>\<^verbatim>\<open>fnmatch.fnmatchcase(name, pattern)\<close>: \<^verbatim>\<open>*\<close> matches any text, \<^verbatim>\<open>?\<close> one character,
      \<^verbatim>\<open>[...]\<close> one character of the class; a \<^verbatim>\<open>[\<close> that is never closed stands for itself\<close>
  "fnmatchcase name [] = (name = [])"
| "fnmatchcase name (p # ps) =
     (if p = CHR ''*'' then
        (fnmatchcase name ps \<or> (case name of [] \<Rightarrow> False | c # cs \<Rightarrow> fnmatchcase cs (p # ps)))
      else
        (case name of
           [] \<Rightarrow> False
         | c # cs \<Rightarrow>
             if p = CHR ''?'' then fnmatchcase cs ps
             else if p = CHR ''['' then
               (case bracket ps of
                  None \<Rightarrow> c = CHR ''['' \<and> fnmatchcase cs ps
                | Some (stuff, j) \<Rightarrow> class_matches c stuff \<and> fnmatchcase cs (drop (Suc j) ps))
             else c = p \<and> fnmatchcase cs ps))"

definition select :: "string \<Rightarrow> stream \<Rightarrow> stream" where
  \<comment> \<open>\<^verbatim>\<open>stream.select(channel=c)\<close>, in stream order\<close>
  "select c stream =
     filter (\<lambda>t. fnmatchcase (upper (stats_channel (trace_stats t))) (upper c)) stream"

definition first :: "'a list \<Rightarrow> 'a outcome" where
  \<comment> \<open>\<^verbatim>\<open>xs[0]\<close>\<close>
  "first xs = (case xs of [] \<Rightarrow> Inl IndexError | x # _ \<Rightarrow> Inr x)"

definition py_nth :: "'a list \<Rightarrow> nat \<Rightarrow> 'a outcome" where
  \<comment> \<open>\<^verbatim>\<open>xs[i]\<close> for \<^verbatim>\<open>i >= 0\<close>\<close>
  "py_nth xs i = (if i < length xs then Inr (xs ! i) else Inl IndexError)"

fun obind :: "'a outcome \<Rightarrow> ('a \<Rightarrow> 'b outcome) \<Rightarrow> 'b outcome" where
  \<comment> \<open>sequencing: an exception ends the run\<close>
  "obind (Inl e) f = Inl e"
| "obind (Inr v) f = f v"

subsection \<open>create_trace\<close>

definition base_create_trace :: "string \<Rightarrow> stats \<Rightarrow> real list \<Rightarrow> trace" where
  \<comment> \<open>Modelled from the spec: \<^verbatim>\<open>Algorithm.create_trace\<close> of the base class is not part of
      the sources; it clones the metadata, sets the channel code and wraps the data\<close>
  "base_create_trace channel st dat = \<lparr>trace_stats = st\<lparr>stats_channel := channel\<rparr>, trace_data = dat\<rparr>"

definition py_str :: "string option \<Rightarrow> string" where
  \<comment> \<open>obspy's \<^verbatim>\<open>Stats\<close> stores what is assigned to \<^verbatim>\<open>location\<close> as a string: \<^verbatim>\<open>str(v)\<close>,
      which is \<^verbatim>\<open>'None'\<close> for \<^verbatim>\<open>None\<close>\<close>
  "py_str v = (case v of None \<Rightarrow> ''None'' | Some s \<Rightarrow> s)"

definition create_trace :: "algorithm \<Rightarrow> string \<Rightarrow> stats \<Rightarrow> real list \<Rightarrow> trace" where
  "create_trace self channel st0 dat =
     (let st1 = (if data_type self = None then st0\<lparr>stats_data_type := Some ''adjusted''\<rparr>
                 else st0\<lparr>stats_data_type := data_type self\<rparr>);
          st2 = (if data_type self = None then st1\<lparr>stats_location := ''A0''\<rparr>
                 else st1\<lparr>stats_location := py_str (location self)\<rparr>)
      in base_create_trace channel st2 dat)"

subsection \<open>process\<close>

fun select_rows :: "stream \<Rightarrow> string list \<Rightarrow> real list list outcome" where
  \<comment> \<open>the list comprehension of lines 138 to 142\<close>
  "select_rows stream [] = Inr []"
| "select_rows stream (channel # cs) =
     (if channel \<noteq> ''F'' then
        obind (first (select channel stream)) (\<lambda>t.
        obind (select_rows stream cs) (\<lambda>rows. Inr (trace_data t # rows)))
      else select_rows stream cs)"

definition vstack :: "real list list \<Rightarrow> real list list outcome" where
  \<comment> \<open>\<^verbatim>\<open>np.vstack\<close> of one-dimensional arrays: they must have one length\<close>
  "vstack rows =
     (case rows of
        [] \<Rightarrow> Inl ValueError
      | r # rs \<Rightarrow> if list_all (\<lambda>x. length x = length r) rs then Inr rows else Inl ValueError)"

definition ncols :: "matrix \<Rightarrow> nat" where
  \<comment> \<open>the second dimension; a matrix without rows has shape (0, 0)\<close>
  "ncols m = (case m of [] \<Rightarrow> 0 | r # _ \<Rightarrow> length r)"

definition matmul :: "matrix \<Rightarrow> real list list \<Rightarrow> real list list outcome" where
  \<comment> \<open>\<^verbatim>\<open>np.matmul(m, raws)\<close> for a stacked, non-empty \<open>raws\<close>: the shapes must agree\<close>
  "matmul m raws =
     (if ncols m = length raws then
        Inr (map (\<lambda>r. map (\<lambda>t. sum_list (map (\<lambda>k. r ! k * raws ! k ! t) [0..<length raws]))
                        [0..<length (hd raws)]) m)
      else Inl ValueError)"

fun out_traces :: "algorithm \<Rightarrow> stream \<Rightarrow> real list list \<Rightarrow> nat list \<Rightarrow> trace list outcome" where
  \<comment> \<open>the list comprehension of lines 150 to 157\<close>
  "out_traces self stream adjusted [] = Inr []"
| "out_traces self stream adjusted (i # is) =
     obind (py_nth (get_output_channels self) i) (\<lambda>oc.
     obind (py_nth (get_input_channels self) i) (\<lambda>ic.
     obind (first (select ic stream)) (\<lambda>t.
     obind (out_traces self stream adjusted is) (\<lambda>ts.
       Inr (create_trace self oc (trace_stats t) (adjusted ! i) # ts)))))"

definition process :: "algorithm \<Rightarrow> stream \<Rightarrow> stream outcome" where
  "process self stream =
     (let ins = get_input_channels self; outs = get_output_channels self in
      obind (select_rows stream ins) (\<lambda>rows.
      obind (first stream) (\<lambda>t0.
      obind (vstack (rows @ [replicate (length (trace_data t0)) 1])) (\<lambda>raws.
      obind (matmul (matrix self) raws) (\<lambda>adjusted.
      obind (out_traces self stream adjusted [0..<length adjusted - 1]) (\<lambda>out.
        if ''F'' \<in> set ins \<and> ''F'' \<in> set outs then
          obind (first (select ''F'' stream)) (\<lambda>f.
            (case pier_correction self of
               None \<Rightarrow> Inl TypeError
             | Some pc \<Rightarrow>
                 Inr (out @ [create_trace self ''F'' (trace_stats f)
                               (map (\<lambda>x. x + pc) (trace_data f))])))
        else Inr out))))))"

subsection \<open>can_produce_data\<close>

definition can_produce_data ::
  "('t \<Rightarrow> 't \<Rightarrow> stream \<Rightarrow> bool) \<Rightarrow> algorithm \<Rightarrow> 't \<Rightarrow> 't \<Rightarrow> stream \<Rightarrow> bool \<times> string list" where
  \<comment> \<open>The inherited check \<^verbatim>\<open>Algorithm.can_produce_data\<close> is not part of the sources and is
      the parameter \<open>base\<close>. The result comes with the channels handed to \<open>base\<close>, in
      call order; \<^verbatim>\<open>np.all([...])\<close> builds its whole list before it looks at it.\<close>
  "can_produce_data base self starttime endtime stream =
     (let channels = get_input_channels self;
          covered = (\<lambda>chan. base starttime endtime (select chan stream));
          log1 = (if ''F'' \<in> set channels then [''F''] else [])
      in if ''F'' \<in> set channels \<and> covered ''F'' then (True, log1)
         else
           (let hez = (''H'' \<in> set channels \<and> ''E'' \<in> set channels \<and> ''Z'' \<in> set channels);
                log2 = log1 @ (if hez then [''H'', ''E'', ''Z''] else [])
            in if hez \<and> list_all covered [''H'', ''E'', ''Z''] then (True, log2)
               else if list_all covered channels then (True, log2 @ channels)
               else (False, log2 @ channels)))"

subsection \<open>A matrix that load_state has written in part\<close>

definition partly_loaded :: "dict \<Rightarrow> nat \<Rightarrow> matrix \<Rightarrow> bool" where
  \<comment> \<open>an \<open>n\<close> by \<open>n\<close> matrix each of whose cells holds the identity's entry or the
      record's value for the cell's key\<close>
  "partly_loaded d n m \<longleftrightarrow>
     length m = n \<and> list_all (\<lambda>r. length r = n) m \<and>
     list_all (\<lambda>(a, b). m ! a ! b = eye n ! a ! b \<or> map_of d (cell_key a b) = Some (Some (m ! a ! b)))
       (cells n)"

subsection \<open>The record that save_state writes\<close>


section \<open>Example instances\<close>

definition example_world :: world where
  "example_world = \<lparr>files = (\<lambda>p. Missing), stderr = []\<rparr>"

definition example_self :: algorithm where
  "example_self =
     \<lparr>inchannels = [''H'', ''E'', ''Z'', ''F''], outchannels = [''X'', ''Y'', ''Z'', ''F''],
      matrix = [[2, 3], [4, 5]], pier_correction = Some 7, statefile = Some ''state.json'',
      data_type = None, location = None\<rparr>"

definition example_partial_record :: "token list" where
  "example_partial_record =
     [LBrace, TStr ''PC'', Colon, TNum 5, Comma, TStr ''M11'', Colon, TNum 8, Comma,
      TStr ''M12'', Colon, TNum 9, Comma, TStr ''M22'', Colon, TNum 6, RBrace]"

definition example_partial_world :: world where
  "example_partial_world =
     \<lparr>files = (\<lambda>p. Missing)(''state.json'' := Text example_partial_record), stderr = []\<rparr>"

definition example_no_pc_record :: "token list" where
  "example_no_pc_record = [LBrace, TStr ''M11'', Colon, TNum 8, RBrace]"

definition example_no_pc_world :: world where
  "example_no_pc_world =
     \<lparr>files = (\<lambda>p. Missing)(''state.json'' := Text example_no_pc_record), stderr = []\<rparr>"

definition example_stats :: "string \<Rightarrow> stats" where
  "example_stats c =
     \<lparr>stats_channel = c, stats_data_type = Some ''variation'', stats_location = ''R0'',
      stats_other = [(''station'', ''BOU'')]\<rparr>"

definition example_stream :: stream where
  "example_stream =
     [\<lparr>trace_stats = example_stats ''H'', trace_data = [1, 2]\<rparr>,
      \<lparr>trace_stats = example_stats ''E'', trace_data = [3, 4]\<rparr>,
      \<lparr>trace_stats = example_stats ''Z'', trace_data = [5, 6]\<rparr>,
      \<lparr>trace_stats = example_stats ''F'', trace_data = [7, 8]\<rparr>]"

definition example_coverage :: "nat \<Rightarrow> nat \<Rightarrow> stream \<Rightarrow> bool" where
  \<comment> \<open>a stand-in for the inherited check: the channel is there and every trace of it has
      a sample for each second of the range\<close>
  "example_coverage starttime endtime stream \<longleftrightarrow>
     stream \<noteq> [] \<and> list_all (\<lambda>t. endtime - starttime \<le> length (trace_data t)) stream"

definition example_short_record :: "token list" where
  \<comment> \<open>the text \<^verbatim>\<open>{"PC": 0, "M11": 1, "M12": 2, "M21": 3}\<close>: rows and columns up to 2, no
      \<^verbatim>\<open>M22\<close>\<close>
  "example_short_record =
     [LBrace, TStr ''PC'', Colon, TNum 0, Comma, TStr ''M11'', Colon, TNum 1, Comma,
      TStr ''M12'', Colon, TNum 2, Comma, TStr ''M21'', Colon, TNum 3, RBrace]"

definition example_short_world :: world where
  "example_short_world =
     \<lparr>files = (\<lambda>p. Missing)(''state.json'' := Text example_short_record), stderr = []\<rparr>"

definition example_identity :: algorithm where
  \<comment> \<open>the default configuration with no state file\<close>
  "example_identity =
     \<lparr>inchannels = [''H'', ''E'', ''Z'', ''F''], outchannels = [''X'', ''Y'', ''Z'', ''F''],
      matrix = eye 4, pier_correction = Some 0, statefile = None,
      data_type = None, location = None\<rparr>"

definition example_no_f_output :: algorithm where
  \<comment> \<open>F is an input channel and not an output channel\<close>
  "example_no_f_output = example_identity\<lparr>outchannels := [''X'', ''Y'', ''Z'', ''G'']\<rparr>"

definition example_adjusted_stats :: "string \<Rightarrow> stats" where
  "example_adjusted_stats c =
     \<lparr>stats_channel = c, stats_data_type = Some ''adjusted'', stats_location = ''A0'',
      stats_other = [(''station'', ''BOU'')]\<rparr>"



section \<open>Auxiliary facts about records and the load loop\<close>

lemma cell_key_not_PC [simp]: "cell_key i j \<noteq> ''PC''"
  by (simp add: cell_key_def)

lemma mem_cells [simp]: "(i, j) \<in> set (cells n) \<longleftrightarrow> i < n \<and> j < n"
  by (auto simp add: cells_def)

lemma map_of_delete_PC [simp]:
  "map_of (AList.delete ''PC'' data) (cell_key i j) = map_of data (cell_key i j)"
  by (simp add: AList.delete_conv')

lemma numeric_lookup:
  "list_all (\<lambda>kv. snd kv \<noteq> None) data \<Longrightarrow> map_of data k = Some v \<Longrightarrow> \<exists>r. v = Some r"
  by (auto simp add: list_all_iff dest!: map_of_SomeD)

lemma numeric_delete:
  "list_all (\<lambda>kv. snd kv \<noteq> None) data \<Longrightarrow> list_all (\<lambda>kv. snd kv \<noteq> None) (AList.delete k data)"
  by (auto simp add: list_all_iff AList.delete_eq)

lemma fill_matrix_missing:
  assumes "list_all (\<lambda>kv. snd kv \<noteq> None) d"
      and "(i, j) \<in> set ps" and "map_of d (cell_key i j) = None"
  shows "\<exists>a b. (a, b) \<in> set ps \<and> fst (fill_matrix d ps m) = Inl (KeyError (cell_key a b)) \<and>
           map_of d (cell_key a b) = None"
  using assms
proof (induction ps arbitrary: m)
  case Nil
  then show ?case by simp
next
  case (Cons p ps)
  obtain a b where p: "p = (a, b)" by (cases p)
  show ?case
  proof (cases "map_of d (cell_key a b)")
    case None
    then show ?thesis by (auto simp add: p)
  next
    case (Some v)
    from numeric_lookup [OF Cons.prems(1) Some] obtain r where v: "v = Some r" ..
    from Some Cons.prems p have "(i, j) \<in> set ps" by auto
    from Cons.IH [OF Cons.prems(1) this Cons.prems(3), of "set_cell m a b r"]
    show ?thesis
      by (auto simp add: p Some v np_float64_def)
  qed
qed


lemma length_eye [simp]: "length (eye n) = n"
  by (simp add: eye_def)

lemma length_eye_row [simp]: "a < n \<Longrightarrow> length (eye n ! a) = n"
  by (simp add: eye_def)

lemma partly_loaded_iff:
  "partly_loaded d n m \<longleftrightarrow>
     length m = n \<and> (\<forall>a<n. length (m ! a) = n) \<and>
     (\<forall>a<n. \<forall>b<n. m ! a ! b = eye n ! a ! b \<or> map_of d (cell_key a b) = Some (Some (m ! a ! b)))"
proof -
  have rows: "length m = n \<Longrightarrow> list_all (\<lambda>r. length r = n) m \<longleftrightarrow> (\<forall>a<n. length (m ! a) = n)"
    by (simp add: list_all_length)
  have cs: "list_all (\<lambda>(a, b). m ! a ! b = eye n ! a ! b \<or>
                map_of d (cell_key a b) = Some (Some (m ! a ! b))) (cells n) \<longleftrightarrow>
      (\<forall>a<n. \<forall>b<n. m ! a ! b = eye n ! a ! b \<or> map_of d (cell_key a b) = Some (Some (m ! a ! b)))"
    unfolding list_all_iff by (simp add: split_beta Ball_def) blast
  show ?thesis
    unfolding partly_loaded_def cs using rows by blast
qed

lemma partly_loaded_eye: "partly_loaded d n (eye n)"
  by (simp add: partly_loaded_iff)

lemma partly_loaded_set_cell:
  assumes "partly_loaded d n m" "i < n" "j < n" "map_of d (cell_key i j) = Some (Some r)"
  shows "partly_loaded d n (set_cell m i j r)"
  using assms
  by (auto simp add: partly_loaded_iff set_cell_def nth_list_update)

lemma fill_matrix_partly_loaded:
  assumes "partly_loaded d n m" and "\<forall>(i, j) \<in> set ps. i < n \<and> j < n"
  shows "partly_loaded d n (snd (fill_matrix d ps m))"
  using assms
proof (induction ps arbitrary: m)
  case Nil
  then show ?case by simp
next
  case (Cons p ps)
  obtain a b where p: "p = (a, b)" by (cases p)
  show ?case
  proof (cases "map_of d (cell_key a b)")
    case None
    with Cons.prems show ?thesis by (simp add: p)
  next
    case (Some v)
    show ?thesis
    proof (cases v)
      case None
      with Some Cons.prems show ?thesis by (simp add: p np_float64_def)
    next
      case (Some r)
      with \<open>map_of d (cell_key a b) = Some v\<close> Cons.prems p
      have "partly_loaded d n (set_cell m a b r)"
        by (auto intro: partly_loaded_set_cell)
      with Cons.IH [of "set_cell m a b r"] Cons.prems(2) Some \<open>map_of d (cell_key a b) = Some v\<close>
      show ?thesis by (simp add: p np_float64_def)
    qed
  qed
qed

lemma load_state_record:
  assumes "statefile self = Some path" "files w path = Text ts" "json_loads ts = Inr (JObj data)"
  shows "load_state self w =
     (case load_record (self\<lparr>matrix := eye (length (get_input_channels self)),
                             pier_correction := Some 0\<rparr>) data of
        (r, self') \<Rightarrow> (r, self', w))"
  using assms by (simp add: load_state_def open_read_def)

section \<open>Loading the state: files that are empty or cannot be read\<close>

text \<open>
  C4. The claim: when the state file exists, is readable and is empty, \<^verbatim>\<open>load_state\<close>
  returns the identity matrix and correction 0 without raising. The code parses the text
  before it tests \<^verbatim>\<open>data == ""\<close>: \<^verbatim>\<open>json.loads("")\<close> raises a \<^verbatim>\<open>ValueError\<close>, which
  the handler for \<^verbatim>\<open>IOError\<close> does not catch. For every instance and every path, loading
  from an empty file ends in that exception (the defaults are in place by then).
\<close>

theorem load_state_empty_file_raises:
  "load_state (self\<lparr>statefile := Some path\<rparr>) (w\<lparr>files := (files w)(path := Text [])\<rparr>) =
     (Inl ValueError,
      self\<lparr>statefile := Some path, matrix := eye (length (get_input_channels self)),
           pier_correction := Some 0\<rparr>,
      w\<lparr>files := (files w)(path := Text [])\<rparr>)"
  by (simp add: load_state_def open_read_def json_loads_def get_input_channels_def)

text \<open>
  The test \<^verbatim>\<open>data == ""\<close> is reached by a file that holds the JSON string literal \<^verbatim>\<open>""\<close>,
  and by one that holds \<^verbatim>\<open>null\<close>: these return the defaults.
\<close>

lemma load_state_empty_string_literal:
  "load_state (self\<lparr>statefile := Some path\<rparr>) (w\<lparr>files := (files w)(path := Text [TStr []])\<rparr>) =
     (Inr (),
      self\<lparr>statefile := Some path, matrix := eye (length (get_input_channels self)),
           pier_correction := Some 0\<rparr>,
      w\<lparr>files := (files w)(path := Text [TStr []])\<rparr>)"
  by (simp add: load_state_def open_read_def json_loads_def get_input_channels_def)

lemma load_state_null_literal:
  "load_state (self\<lparr>statefile := Some path\<rparr>) (w\<lparr>files := (files w)(path := Text [TNull])\<rparr>) =
     (Inr (),
      self\<lparr>statefile := Some path, matrix := eye (length (get_input_channels self)),
           pier_correction := Some 0\<rparr>,
      w\<lparr>files := (files w)(path := Text [TNull])\<rparr>)"
  by (simp add: load_state_def open_read_def json_loads_def get_input_channels_def)

text \<open>
  C5. When the state file cannot be read (it is missing, access is denied, or reading
  fails), \<^verbatim>\<open>load_state\<close> returns normally, the instance holds the identity matrix sized to
  the input channels and correction 0, and one line \<^verbatim>\<open>I/O error ...\<close> with the error's
  message is written to the standard error stream.
\<close>

theorem load_state_unreadable_defaults:
  assumes "statefile self = Some path" and "files w path \<in> {Missing, Denied, Faulty}"
  shows "\<exists>msg. open_read w path = Inl (IOError msg) \<and>
           load_state self w =
             (Inr (),
              self\<lparr>matrix := eye (length (get_input_channels self)), pier_correction := Some 0\<rparr>,
              w\<lparr>stderr := stderr w @ [''I/O error '' @ msg]\<rparr>)"
  using assms by (auto simp add: load_state_def open_read_def)

theorem load_state_unreadable_defaults_witness:
  "statefile example_self = Some ''state.json'' \<and>
   files example_world ''state.json'' \<in> {Missing, Denied, Faulty} \<and>
   load_state example_self example_world =
     (Inr (),
      example_self\<lparr>matrix := eye 4, pier_correction := Some 0\<rparr>,
      example_world\<lparr>stderr :=
        [''I/O error [Errno 2] No such file or directory: '' @ [CHR 0x27] @ ''state.json'' @ [CHR 0x27]]\<rparr>)"
  using load_state_unreadable_defaults [of example_self "''state.json''" example_world]
  by (simp add: example_self_def example_world_def open_read_def get_input_channels_def
        eval_nat_numeral)

section \<open>Loading the state: incomplete records\<close>

text \<open>
  Where the length that \<^verbatim>\<open>load_state\<close> itself computes, \<^verbatim>\<open>int(max(keys)[-1])\<close>, covers a
  cell whose key the record of numbers lacks, the call ends in a \<^verbatim>\<open>KeyError\<close> for a key
  that the record lacks.
\<close>

lemma load_state_missing_cell_within_length:
  assumes "statefile self = Some path" and "files w path = Text ts"
      and "json_loads ts = Inr (JObj data)"
      and "list_all (\<lambda>kv. snd kv \<noteq> None) data"
      and "matrix_size (AList.delete ''PC'' data) = Inr n"
      and "i < n" and "j < n" and "map_of data (cell_key i j) = None"
  shows "\<exists>k. fst (load_state self w) = Inl (KeyError k) \<and> map_of data k = None"
proof (cases "map_of data ''PC''")
  case None
  with assms(1-3) show ?thesis
    by (auto simp add: load_state_record load_record_def)
next
  case (Some v)
  from numeric_lookup [OF assms(4) Some] obtain pc where v: "v = Some pc" ..
  let ?d = "AList.delete ''PC'' data"
  have "list_all (\<lambda>kv. snd kv \<noteq> None) ?d"
    using assms(4) by (rule numeric_delete)
  moreover have "(i, j) \<in> set (cells n)" using assms(6,7) by simp
  moreover have "map_of ?d (cell_key i j) = None" using assms(8) by simp
  ultimately obtain a b where k:
    "fst (fill_matrix ?d (cells n) (eye n)) = Inl (KeyError (cell_key a b))"
    "map_of ?d (cell_key a b) = None"
    using fill_matrix_missing by blast
  obtain r m' where fm: "fill_matrix ?d (cells n) (eye n) = (r, m')"
    by (cases "fill_matrix ?d (cells n) (eye n)")
  have "fst (load_state self w) = Inl (KeyError (cell_key a b))"
    using assms(1-3,5) Some v k(1) fm
    by (simp add: load_state_record load_record_def np_float64_def)
  moreover from k(2) have "map_of data (cell_key a b) = None" by simp
  ultimately show ?thesis by blast
qed

lemma load_state_missing_cell_within_length_example:
  "statefile example_self = Some ''state.json'' \<and>
   files example_partial_world ''state.json'' = Text example_partial_record \<and>
   json_loads example_partial_record =
     Inr (JObj [(''PC'', Some 5), (''M11'', Some 8), (''M12'', Some 9), (''M22'', Some 6)]) \<and>
   matrix_size [(''M11'', Some 8), (''M12'', Some 9), (''M22'', Some 6)] = Inr 2 \<and>
   map_of [(''PC'', Some 5), (''M11'', Some 8), (''M12'', Some 9), (''M22'', Some (6::real))]
     (cell_key 1 0) = None \<and>
   (\<exists>k. fst (load_state example_self example_partial_world) = Inl (KeyError k) \<and>
        map_of [(''PC'', Some 5), (''M11'', Some 8), (''M12'', Some 9), (''M22'', Some (6::real))] k
          = None)"
proof -
  let ?data = "[(''PC'', Some 5), (''M11'', Some 8), (''M12'', Some 9), (''M22'', Some (6::real))]"
  have h1: "statefile example_self = Some ''state.json''"
    by (simp add: example_self_def)
  have h2: "files example_partial_world ''state.json'' = Text example_partial_record"
    by (simp add: example_partial_world_def)
  have h3: "json_loads example_partial_record = Inr (JObj ?data)"
    by (simp add: example_partial_record_def json_loads_def dict_of_def)
  have h4: "list_all (\<lambda>kv. snd kv \<noteq> None) ?data"
    by simp
  have h5: "matrix_size (AList.delete ''PC'' ?data) = Inr 2"
    by (simp add: matrix_size_def AList.delete_eq py_max_def last_char_def int_of_char_def)
  have h6: "map_of ?data (cell_key 1 0) = None"
    by (simp add: cell_key_def str_nat.simps digit_char_def)
  from load_state_missing_cell_within_length [OF h1 h2 h3 h4 h5 _ _ h6] h1 h2 h3 h5 h6
  show ?thesis by (simp add: AList.delete_eq)
qed

text \<open>
  C6. The claim: when the state file parses into a non-empty record that lacks a cell key
  \<^verbatim>\<open>M<r><c>\<close> of the inferred dimension (the greatest row or column digit among the keys),
  \<^verbatim>\<open>load_state\<close> raises a lookup error and returns no matrix. The code takes the dimension
  from the last character of the greatest key in string order, which is the column digit
  of the last row present and not the greatest digit (its comment says
  \<^verbatim>\<open>get maximum row/colum number\<close>). The record with the keys \<^verbatim>\<open>PC\<close>, \<^verbatim>\<open>M11\<close>, \<^verbatim>\<open>M12\<close>,
  \<^verbatim>\<open>M21\<close> has rows and columns up to 2 and lacks \<^verbatim>\<open>M22\<close>; its greatest key is
  \<^verbatim>\<open>M21\<close>, the length is 1, and the call returns normally with a 1 by 1 matrix.
\<close>

theorem load_state_short_record_returns:
  "json_loads example_short_record =
     Inr (JObj [(''PC'', Some 0), (''M11'', Some 1), (''M12'', Some 2), (''M21'', Some 3)]) \<and>
   cell_key 1 1 = ''M22'' \<and>
   map_of [(''PC'', Some 0), (''M11'', Some 1), (''M12'', Some 2), (''M21'', Some (3::real))]
     (cell_key 1 1) = None \<and>
   py_max [''M11'', ''M12'', ''M21''] = Inr ''M21'' \<and>
   matrix_size [(''M11'', Some 1), (''M12'', Some 2), (''M21'', Some 3)] = Inr 1 \<and>
   load_state example_self example_short_world =
     (Inr (), example_self\<lparr>matrix := [[1]], pier_correction := Some 0\<rparr>, example_short_world)"
proof -
  let ?data = "[(''PC'', Some 0), (''M11'', Some 1), (''M12'', Some 2), (''M21'', Some (3::real))]"
  have h1: "statefile example_self = Some ''state.json''"
    by (simp add: example_self_def)
  have h2: "files example_short_world ''state.json'' = Text example_short_record"
    by (simp add: example_short_world_def)
  have h3: "json_loads example_short_record = Inr (JObj ?data)"
    by (simp add: example_short_record_def json_loads_def dict_of_def)
  have k: "cell_key 1 1 = ''M22''"
    by (simp add: cell_key_def str_nat.simps digit_char_def)
  have mx: "py_max [''M11'', ''M12'', ''M21''] = Inr ''M21''"
    by (simp add: py_max_def)
  have h5: "matrix_size (AList.delete ''PC'' ?data) = Inr 1"
    by (simp add: matrix_size_def AList.delete_eq py_max_def last_char_def int_of_char_def)
  have fm: "fill_matrix (AList.delete ''PC'' ?data) (cells 1) (eye 1) = (Inr (), [[1]])"
    by (simp add: cells_def eye_def AList.delete_eq np_float64_def set_cell_def
          cell_key_def str_nat.simps digit_char_def)
  have run: "load_state example_self example_short_world =
     (Inr (), example_self\<lparr>matrix := [[1]], pier_correction := Some 0\<rparr>, example_short_world)"
    using h1 h2 h3 h5 fm
    by (simp add: load_state_record load_record_def np_float64_def)
  from h3 k mx h5 run show ?thesis
    by (simp add: AList.delete_eq)
qed

lemma load_record_missing_cell:
  assumes "map_of data ''PC'' = Some (Some pc)"
      and "list_all (\<lambda>kv. snd kv \<noteq> None) data"
      and "matrix_size (AList.delete ''PC'' data) = Inr n"
      and "i < n" and "j < n" and "map_of data (cell_key i j) = None"
  shows "\<exists>k mat. load_record self data =
             (Inl (KeyError k), self\<lparr>pier_correction := Some pc, matrix := mat\<rparr>) \<and>
           partly_loaded data n mat"
proof -
  let ?d = "AList.delete ''PC'' data"
  obtain r mat where fm: "fill_matrix ?d (cells n) (eye n) = (r, mat)"
    by (cases "fill_matrix ?d (cells n) (eye n)")
  have "list_all (\<lambda>kv. snd kv \<noteq> None) ?d"
    using assms(2) by (rule numeric_delete)
  moreover have "(i, j) \<in> set (cells n)" using assms(4,5) by simp
  moreover have "map_of ?d (cell_key i j) = None" using assms(6) by simp
  ultimately obtain a b where "fst (fill_matrix ?d (cells n) (eye n)) = Inl (KeyError (cell_key a b))"
    using fill_matrix_missing by blast
  with fm have r: "r = Inl (KeyError (cell_key a b))" by simp
  have "partly_loaded ?d n (snd (fill_matrix ?d (cells n) (eye n)))"
    by (rule fill_matrix_partly_loaded) (auto intro: partly_loaded_eye)
  with fm have "partly_loaded data n mat"
    by (simp add: partly_loaded_def)
  moreover have "load_record self data =
      (Inl (KeyError (cell_key a b)), self\<lparr>pier_correction := Some pc, matrix := mat\<rparr>)"
    using assms(1,3) fm r by (simp add: load_record_def np_float64_def)
  ultimately show ?thesis by blast
qed

text \<open>
  C10. Every call of \<^verbatim>\<open>load_state\<close> discards the calibration the instance held: its
  result does not depend on the matrix and correction held before the call. When the
  parsed record lacks \<^verbatim>\<open>"PC"\<close>, the call raises \<^verbatim>\<open>KeyError\<close> and leaves the identity
  matrix sized to the input channels and correction 0. When the record of numbers lacks a
  cell key of the inferred dimension \<open>n\<close>, the call raises \<^verbatim>\<open>KeyError\<close> and leaves the
  record's correction and an \<open>n\<close> by \<open>n\<close> matrix each of whose cells is the identity's entry
  or the record's value for that cell.
\<close>

theorem load_state_discards_calibration:
  "load_state (self\<lparr>matrix := m_old, pier_correction := pc_old\<rparr>) w = load_state self w \<and>
   (statefile self = Some path \<and> files w path = Text ts \<and> json_loads ts = Inr (JObj data) \<and>
    map_of data ''PC'' = None \<longrightarrow>
      load_state self w =
        (Inl (KeyError ''PC''),
         self\<lparr>matrix := eye (length (get_input_channels self)), pier_correction := Some 0\<rparr>, w)) \<and>
   (statefile self = Some path \<and> files w path = Text ts \<and> json_loads ts = Inr (JObj data) \<and>
    map_of data ''PC'' = Some (Some pc) \<and> list_all (\<lambda>kv. snd kv \<noteq> None) data \<and>
    matrix_size (AList.delete ''PC'' data) = Inr n \<and> i < n \<and> j < n \<and>
    map_of data (cell_key i j) = None \<longrightarrow>
      (\<exists>k mat. load_state self w =
                 (Inl (KeyError k), self\<lparr>matrix := mat, pier_correction := Some pc\<rparr>, w) \<and>
               length mat = n \<and> (\<forall>a<n. length (mat ! a) = n) \<and>
               (\<forall>a<n. \<forall>b<n. mat ! a ! b = eye n ! a ! b \<or>
                               map_of data (cell_key a b) = Some (Some (mat ! a ! b)))))"
proof (intro conjI impI)
  show "load_state (self\<lparr>matrix := m_old, pier_correction := pc_old\<rparr>) w = load_state self w"
    by (simp add: load_state_def get_input_channels_def)
next
  assume "statefile self = Some path \<and> files w path = Text ts \<and>
    json_loads ts = Inr (JObj data) \<and> map_of data ''PC'' = None"
  then show "load_state self w =
        (Inl (KeyError ''PC''),
         self\<lparr>matrix := eye (length (get_input_channels self)), pier_correction := Some 0\<rparr>, w)"
    by (simp add: load_state_record load_record_def)
next
  assume h: "statefile self = Some path \<and> files w path = Text ts \<and>
    json_loads ts = Inr (JObj data) \<and>
    map_of data ''PC'' = Some (Some pc) \<and> list_all (\<lambda>kv. snd kv \<noteq> None) data \<and>
    matrix_size (AList.delete ''PC'' data) = Inr n \<and> i < n \<and> j < n \<and>
    map_of data (cell_key i j) = None"
  let ?reset = "self\<lparr>matrix := eye (length (get_input_channels self)), pier_correction := Some 0\<rparr>"
  from h load_record_missing_cell [of data pc n i j ?reset]
  obtain k mat where lr: "load_record ?reset data =
      (Inl (KeyError k), ?reset\<lparr>pier_correction := Some pc, matrix := mat\<rparr>)"
    and pl: "partly_loaded data n mat"
    by blast
  from h lr have "load_state self w =
      (Inl (KeyError k), self\<lparr>matrix := mat, pier_correction := Some pc\<rparr>, w)"
    by (simp add: load_state_record)
  with pl show "\<exists>k mat. load_state self w =
                 (Inl (KeyError k), self\<lparr>matrix := mat, pier_correction := Some pc\<rparr>, w) \<and>
               length mat = n \<and> (\<forall>a<n. length (mat ! a) = n) \<and>
               (\<forall>a<n. \<forall>b<n. mat ! a ! b = eye n ! a ! b \<or>
                               map_of data (cell_key a b) = Some (Some (mat ! a ! b)))"
    unfolding partly_loaded_iff by blast
qed

theorem load_state_discards_calibration_witness:
  "json_loads example_no_pc_record = Inr (JObj [(''M11'', Some 8)]) \<and>
   load_state example_self example_no_pc_world =
     (Inl (KeyError ''PC''), example_self\<lparr>matrix := eye 4, pier_correction := Some 0\<rparr>,
      example_no_pc_world) \<and>
   json_loads example_partial_record =
     Inr (JObj [(''PC'', Some 5), (''M11'', Some 8), (''M12'', Some 9), (''M22'', Some 6)]) \<and>
   matrix_size [(''M11'', Some 8), (''M12'', Some 9), (''M22'', Some 6)] = Inr 2 \<and>
   map_of [(''PC'', Some 5), (''M11'', Some 8), (''M12'', Some 9), (''M22'', Some (6::real))]
     (cell_key 1 0) = None \<and>
   load_state example_self example_partial_world =
     (Inl (KeyError ''M21''), example_self\<lparr>matrix := [[8, 9], [0, 1]], pier_correction := Some 5\<rparr>,
      example_partial_world) \<and>
   load_state (example_self\<lparr>matrix := [[1, 1], [1, 1]], pier_correction := None\<rparr>)
       example_partial_world =
     (Inl (KeyError ''M21''), example_self\<lparr>matrix := [[8, 9], [0, 1]], pier_correction := Some 5\<rparr>,
      example_partial_world)"
proof -
  let ?data = "[(''PC'', Some 5), (''M11'', Some 8), (''M12'', Some 9), (''M22'', Some (6::real))]"
  have h1: "statefile example_self = Some ''state.json''"
    by (simp add: example_self_def)
  have n2: "files example_no_pc_world ''state.json'' = Text example_no_pc_record"
    by (simp add: example_no_pc_world_def)
  have n3: "json_loads example_no_pc_record = Inr (JObj [(''M11'', Some 8)])"
    by (simp add: example_no_pc_record_def json_loads_def dict_of_def)
  have n4: "map_of [(''M11'', Some (8::real))] ''PC'' = None"
    by simp
  have len: "length (get_input_channels example_self) = 4"
    by (simp add: example_self_def get_input_channels_def)
  have h2: "files example_partial_world ''state.json'' = Text example_partial_record"
    by (simp add: example_partial_world_def)
  have h3: "json_loads example_partial_record = Inr (JObj ?data)"
    by (simp add: example_partial_record_def json_loads_def dict_of_def)
  have h5: "matrix_size (AList.delete ''PC'' ?data) = Inr 2"
    by (simp add: matrix_size_def AList.delete_eq py_max_def last_char_def int_of_char_def)
  have h6: "map_of ?data (cell_key 1 0) = None"
    by (simp add: cell_key_def str_nat.simps digit_char_def)
  have fm: "fill_matrix (AList.delete ''PC'' ?data) (cells 2) (eye 2) =
      (Inl (KeyError ''M21''), [[8, 9], [0, 1]])"
    by (simp add: cells_def eye_def AList.delete_eq np_float64_def set_cell_def
          cell_key_def str_nat.simps digit_char_def
          upt_rec [of 0] upt_rec [of 1] upt_rec [of 2] eval_nat_numeral)
  have run: "load_state example_self example_partial_world =
     (Inl (KeyError ''M21''), example_self\<lparr>matrix := [[8, 9], [0, 1]], pier_correction := Some 5\<rparr>,
      example_partial_world)"
    using h1 h2 h3 h5 fm
    by (simp add: load_state_record load_record_def np_float64_def)
  from load_state_discards_calibration
    [where self = example_self and w = example_no_pc_world and path = "''state.json''"
       and ts = example_no_pc_record and data = "[(''M11'', Some 8)]"]
    h1 n2 n3 n4 len
  have a: "load_state example_self example_no_pc_world =
     (Inl (KeyError ''PC''), example_self\<lparr>matrix := eye 4, pier_correction := Some 0\<rparr>,
      example_no_pc_world)"
    by simp
  from load_state_discards_calibration
    [where self = example_self and w = example_partial_world and m_old = "[[1, 1], [1, 1]]"
       and pc_old = None]
    run
  have b: "load_state (example_self\<lparr>matrix := [[1, 1], [1, 1]], pier_correction := None\<rparr>)
       example_partial_world =
     (Inl (KeyError ''M21''), example_self\<lparr>matrix := [[8, 9], [0, 1]], pier_correction := Some 5\<rparr>,
      example_partial_world)"
    by simp
  from a b run n3 h3 h5 h6 show ?thesis
    by (simp add: AList.delete_eq)
qed

section \<open>Output metadata\<close>

lemma create_trace_eq:
  "create_trace self channel st dat =
     \<lparr>trace_stats = st\<lparr>stats_channel := channel,
                        stats_data_type := (case data_type self of None \<Rightarrow> Some ''adjusted'' | Some d \<Rightarrow> Some d),
                        stats_location := (if data_type self = None then ''A0'' else py_str (location self))\<rparr>,
      trace_data = dat\<rparr>"
  by (cases "data_type self") (simp_all add: create_trace_def base_create_trace_def)

text \<open>
  C8. The claim: each output channel's metadata is the input's with the channel code
  changed and the data-type and location tags set to the "adjusted" defaults or, when an
  override is configured, to the override. In \<^verbatim>\<open>create_trace\<close> the location is chosen by
  testing \<^verbatim>\<open>self.data_type\<close> a second time, not \<^verbatim>\<open>self.location\<close>: a configured location
  without a configured data type is replaced by the default \<^verbatim>\<open>"A0"\<close>, and a configured
  data type without a location stores the string \<^verbatim>\<open>None\<close> as the location.
\<close>

theorem create_trace_location_follows_data_type:
  "stats_location (trace_stats (create_trace (self\<lparr>data_type := None, location := Some loc\<rparr>)
      channel st dat)) = ''A0'' \<and>
   stats_location (trace_stats (create_trace (self\<lparr>data_type := Some dt, location := None\<rparr>)
      channel st dat)) = ''None''"
  by (simp add: create_trace_eq py_str_def)

section \<open>The default pier correction\<close>

text \<open>
  C9. The claim: however a transformer is created without a pier correction, its
  correction is 0. The constructor stores the argument as it is and calls
  \<^verbatim>\<open>load_state\<close>, which sets 0, only when no matrix is given: with a matrix and no
  correction the field stays \<^verbatim>\<open>None\<close>, and \<^verbatim>\<open>process\<close> then fails with a
  \<^verbatim>\<open>TypeError\<close> at \<^verbatim>\<open>f.data + self.pier_correction\<close>.
\<close>

theorem init_with_matrix_leaves_correction_unset:
  "pier_correction (fst (snd (init (Some m) None sf dt loc ins outs w))) = None \<and>
   process (fst (snd (init (Some (eye 4)) None None None None None None example_world)))
     example_stream = Inl TypeError"
proof
  show "pier_correction (fst (snd (init (Some m) None sf dt loc ins outs w))) = None"
    by (simp add: init_def)
  show "process (fst (snd (init (Some (eye 4)) None None None None None None example_world)))
     example_stream = Inl TypeError"
    by code_simp
qed

section \<open>The availability check\<close>

text \<open>
  C3. For every time range, stream and input-channel list, \<^verbatim>\<open>can_produce_data\<close> returns
  true exactly when one of the three tiers holds (tier 1: \<^verbatim>\<open>"F"\<close> is an input and F is
  covered; tier 2: \<^verbatim>\<open>"H"\<close>, \<^verbatim>\<open>"E"\<close>, \<^verbatim>\<open>"Z"\<close> are inputs and each is covered; tier 3: every
  input channel is covered) and false otherwise. The tiers are consulted in this order:
  the inherited check is asked about F first, about H, E, Z only when tier 1 fails, and
  about all the inputs only when tier 2 fails as well.
\<close>

theorem can_produce_data_tiers:
  fixes base :: "'t \<Rightarrow> 't \<Rightarrow> stream \<Rightarrow> bool"
  shows
  "can_produce_data base self starttime endtime stream =
     (let ins = get_input_channels self;
          covered = (\<lambda>c. base starttime endtime (select c stream));
          tier1 = (''F'' \<in> set ins \<and> covered ''F'');
          hez = (''H'' \<in> set ins \<and> ''E'' \<in> set ins \<and> ''Z'' \<in> set ins);
          tier2 = (hez \<and> covered ''H'' \<and> covered ''E'' \<and> covered ''Z'');
          tier3 = (\<forall>c \<in> set ins. covered c)
      in (tier1 \<or> tier2 \<or> tier3,
          (if ''F'' \<in> set ins then [''F''] else []) @
          (if tier1 then []
           else (if hez then [''H'', ''E'', ''Z''] else []) @ (if tier2 then [] else ins))))"
  by (auto simp add: can_produce_data_def Let_def list_all_iff)

theorem can_produce_data_tiers_witness:
  "can_produce_data example_coverage example_self 0 2 [example_stream ! 3] = (True, [''F'']) \<and>
   can_produce_data example_coverage example_self 0 2 (butlast example_stream) =
     (True, [''F'', ''H'', ''E'', ''Z'']) \<and>
   can_produce_data example_coverage example_self 0 2 [example_stream ! 0] =
     (False, [''F'', ''H'', ''E'', ''Z'', ''H'', ''E'', ''Z'', ''F'']) \<and>
   can_produce_data example_coverage (example_self\<lparr>inchannels := [''U'', ''V'']\<rparr>) 0 2
       [\<lparr>trace_stats = example_stats ''V'', trace_data = [1, 2]\<rparr>,
        \<lparr>trace_stats = example_stats ''U'', trace_data = [3, 4]\<rparr>] =
     (True, [''U'', ''V''])"
  using can_produce_data_tiers [of example_coverage example_self 0 2 "[example_stream ! 3]"]
    can_produce_data_tiers [of example_coverage example_self 0 2 "butlast example_stream"]
    can_produce_data_tiers [of example_coverage example_self 0 2 "[example_stream ! 0]"]
    can_produce_data_tiers [of example_coverage "example_self\<lparr>inchannels := [''U'', ''V'']\<rparr>" 0 2
       "[\<lparr>trace_stats = example_stats ''V'', trace_data = [1, 2]\<rparr>,
        \<lparr>trace_stats = example_stats ''U'', trace_data = [3, 4]\<rparr>]"]
  by (simp add: example_self_def example_stream_def example_stats_def example_coverage_def
        get_input_channels_def select_def upper_def upper_char_def Let_def)

section \<open>Processing a batch\<close>

subsection \<open>Where process can fail\<close>

lemma first_cases: "first xs = Inl IndexError \<or> (\<exists>x. first xs = Inr x)"
  by (cases xs) (simp_all add: first_def)

lemma first_errors: "first xs = Inl e \<Longrightarrow> e = IndexError"
  by (cases xs) (simp_all add: first_def)

lemma first_Nil [simp]: "first [] = Inl IndexError"
  by (simp add: first_def)

lemma py_nth_cases: "py_nth xs i = Inl IndexError \<or> (\<exists>x. py_nth xs i = Inr x)"
  by (simp add: py_nth_def)

lemma select_rows_errors: "select_rows stream cs = Inl e \<Longrightarrow> e = IndexError"
proof (induction cs arbitrary: e)
  case Nil
  then show ?case by simp
next
  case (Cons c cs)
  show ?case
  proof (cases "c = ''F''")
    case True
    with Cons show ?thesis by simp
  next
    case False
    from first_cases [of "select c stream"] show ?thesis
    proof
      assume "first (select c stream) = Inl IndexError"
      with Cons.prems False show ?thesis by simp
    next
      assume "\<exists>t. first (select c stream) = Inr t"
      then obtain t where t: "first (select c stream) = Inr t" ..
      show ?thesis
      proof (cases "select_rows stream cs")
        case (Inl e')
        with Cons.IH have "e' = IndexError" by simp
        with Cons.prems False t Inl show ?thesis by simp
      next
        case (Inr rows)
        with Cons.prems False t show ?thesis by simp
      qed
    qed
  qed
qed

lemma select_rows_missing:
  "c \<in> set cs \<Longrightarrow> c \<noteq> ''F'' \<Longrightarrow> select c stream = [] \<Longrightarrow>
   select_rows stream cs = Inl IndexError"
proof (induction cs)
  case Nil
  then show ?case by simp
next
  case (Cons d cs)
  show ?case
  proof (cases "d = c")
    case True
    with Cons.prems show ?thesis by simp
  next
    case False
    with Cons have rest: "select_rows stream cs = Inl IndexError" by simp
    show ?thesis
    proof (cases "d = ''F''")
      case True
      with rest show ?thesis by simp
    next
      case False
      from first_cases [of "select d stream"] rest False show ?thesis
        by auto
    qed
  qed
qed

lemma out_traces_errors: "out_traces self stream adjusted is = Inl e \<Longrightarrow> e = IndexError"
proof (induction "is" arbitrary: e)
  case Nil
  then show ?case by simp
next
  case (Cons i "is")
  from py_nth_cases [of "get_output_channels self" i] show ?case
  proof
    assume "py_nth (get_output_channels self) i = Inl IndexError"
    with Cons.prems show ?thesis by simp
  next
    assume "\<exists>oc. py_nth (get_output_channels self) i = Inr oc"
    then obtain oc where oc: "py_nth (get_output_channels self) i = Inr oc" ..
    from py_nth_cases [of "get_input_channels self" i] show ?thesis
    proof
      assume "py_nth (get_input_channels self) i = Inl IndexError"
      with Cons.prems oc show ?thesis by simp
    next
      assume "\<exists>ic. py_nth (get_input_channels self) i = Inr ic"
      then obtain ic where ic: "py_nth (get_input_channels self) i = Inr ic" ..
      from first_cases [of "select ic stream"] show ?thesis
      proof
        assume "first (select ic stream) = Inl IndexError"
        with Cons.prems oc ic show ?thesis by simp
      next
        assume "\<exists>t. first (select ic stream) = Inr t"
        then obtain t where t: "first (select ic stream) = Inr t" ..
        show ?thesis
        proof (cases "out_traces self stream adjusted is")
          case (Inl e')
          with Cons.IH have "e' = IndexError" by simp
          with Cons.prems oc ic t Inl show ?thesis by simp
        next
          case (Inr ts)
          with Cons.prems oc ic t show ?thesis by simp
        qed
      qed
    qed
  qed
qed

lemma vstack_errors: "vstack rows = Inl e \<Longrightarrow> e = ValueError"
  by (auto simp add: vstack_def split: list.splits if_splits)

lemma matmul_errors: "matmul m raws = Inl e \<Longrightarrow> e = ValueError"
  by (auto simp add: matmul_def split: if_splits)

lemma obind_Inl_iff: "obind x f = Inl e \<longleftrightarrow> x = Inl e \<or> (\<exists>v. x = Inr v \<and> f v = Inl e)"
  by (cases x) simp_all

lemma obind_Inr_iff: "obind x f = Inr y \<longleftrightarrow> (\<exists>v. x = Inr v \<and> f v = Inr y)"
  by (cases x) simp_all

text \<open>
  C7. The claim: a batch that lacks a channel named in the inputs makes \<^verbatim>\<open>process\<close> fail
  with a lookup or index error, and no output is produced. That is so for every input
  channel other than F: the rows are selected first, and \<^verbatim>\<open>process\<close> raises
  \<^verbatim>\<open>IndexError\<close>. The F channel is read only when \<^verbatim>\<open>"F"\<close> is an output channel as well:
  then a batch without F makes \<^verbatim>\<open>process\<close> raise (\<^verbatim>\<open>IndexError\<close>, or \<^verbatim>\<open>ValueError\<close> when
  the rows cannot be stacked or do not fit the matrix); with \<^verbatim>\<open>"F"\<close> not among the outputs a
  batch without F is processed and the other channels are returned.
\<close>

theorem process_missing_channel_fails:
  "(c \<in> set (get_input_channels self) \<and> c \<noteq> ''F'' \<and> select c stream = [] \<longrightarrow>
      process self stream = Inl IndexError) \<and>
   (''F'' \<in> set (get_input_channels self) \<and> ''F'' \<in> set (get_output_channels self) \<and>
    select ''F'' stream = [] \<longrightarrow>
      process self stream = Inl IndexError \<or> process self stream = Inl ValueError)"
proof (intro conjI impI)
  assume "c \<in> set (get_input_channels self) \<and> c \<noteq> ''F'' \<and> select c stream = []"
  then have "select_rows stream (get_input_channels self) = Inl IndexError"
    using select_rows_missing by blast
  then show "process self stream = Inl IndexError"
    by (simp add: process_def Let_def)
next
  assume h: "''F'' \<in> set (get_input_channels self) \<and> ''F'' \<in> set (get_output_channels self) \<and>
    select ''F'' stream = []"
  show "process self stream = Inl IndexError \<or> process self stream = Inl ValueError"
  proof (cases "process self stream")
    case (Inl e)
    then have "e = IndexError \<or> e = ValueError"
      using h
      by (auto simp add: process_def Let_def obind_Inl_iff
            dest: select_rows_errors out_traces_errors vstack_errors matmul_errors first_errors
            split: option.splits)
    with Inl show ?thesis by auto
  next
    case (Inr out)
    with h have False
      by (auto simp add: process_def Let_def obind_Inr_iff)
    then show ?thesis ..
  qed
qed


theorem process_missing_channel_fails_witness:
  "''E'' \<in> set (get_input_channels example_identity) \<and>
   select ''E'' [example_stream ! 0, example_stream ! 2, example_stream ! 3] = [] \<and>
   process example_identity [example_stream ! 0, example_stream ! 2, example_stream ! 3] =
     Inl IndexError \<and>
   ''F'' \<in> set (get_input_channels example_identity) \<and>
   ''F'' \<in> set (get_output_channels example_identity) \<and>
   select ''F'' (butlast example_stream) = [] \<and>
   process example_identity (butlast example_stream) = Inl IndexError"
proof -
  let ?s1 = "[example_stream ! 0, example_stream ! 2, example_stream ! 3]"
  have a: "''E'' \<in> set (get_input_channels example_identity)"
    "''F'' \<in> set (get_input_channels example_identity)"
    "''F'' \<in> set (get_output_channels example_identity)"
    by (simp_all add: example_identity_def get_input_channels_def get_output_channels_def)
  have b: "select ''E'' ?s1 = []"
    by code_simp
  have c: "select ''F'' (butlast example_stream) = []"
    by code_simp
  have d: "process example_identity (butlast example_stream) \<noteq> Inl ValueError"
    by code_simp
  from process_missing_channel_fails [of "''E''" example_identity ?s1] a b
  have e: "process example_identity ?s1 = Inl IndexError"
    by simp
  from process_missing_channel_fails [of "''E''" example_identity "butlast example_stream"] a c d
  have f: "process example_identity (butlast example_stream) = Inl IndexError"
    by simp
  from a b c e f show ?thesis by simp
qed

text \<open>
  With the inputs H, E, Z, F and the outputs X, Y, Z, G a batch without F is processed.
\<close>

theorem process_missing_f_counterexample:
  "''F'' \<in> set (get_input_channels example_no_f_output) \<and>
   select ''F'' (butlast example_stream) = [] \<and>
   process example_no_f_output (butlast example_stream) =
     Inr [\<lparr>trace_stats = example_adjusted_stats ''X'', trace_data = [1, 2]\<rparr>,
          \<lparr>trace_stats = example_adjusted_stats ''Y'', trace_data = [3, 4]\<rparr>,
          \<lparr>trace_stats = example_adjusted_stats ''Z'', trace_data = [5, 6]\<rparr>]"
  by code_simp

subsection \<open>The identity calibration\<close>














section \<open>Saving and loading the state\<close>

subsection \<open>Keys of one digit\<close>











subsection \<open>The greatest key\<close>








subsection \<open>What save_state writes\<close>





subsection \<open>Reading back the text of a dict\<close>





subsection \<open>Loading what save_state wrote\<close>

lemma PC_not_cell_key [simp]: "''PC'' \<noteq> cell_key i j"
  by (simp add: cell_key_def)











end
